theory Spec2Isabelle
  imports Complex_Main "HOL-Library.AList" "HOL-Library.Sublist"
    "HOL-Library.List_Lexorder" "HOL-Library.Multiset"
begin

section \<open>Python values, exceptions and strings\<close>

text \<open>
  A Python \<open>str\<close> is a sequence of Unicode code points: here a list of natural numbers.
  \<open>len\<close> is \<open>length\<close>, the slice \<open>s[:n]\<close> is \<open>take n s\<close>, and strings compare
  in the lexicographic order of their code points. A literal of the source is written
  \<open>str ''...''\<close>, which sends each ASCII character to its code point; a code point outside
  ASCII is written as its number.
\<close>

type_synonym pystr = "nat list"

definition str :: "string \<Rightarrow> pystr" where
  "str cs = map of_char cs"

text \<open>
  The backend is Python. Exceptions are values of \<open>exn\<close>; a function that can raise
  returns \<open>exn + 'a\<close> with \<open>Inl\<close> for the raised exception. Exceptions raised by the
  repository carry the message of the source; exceptions raised by the standard library
  carry an abbreviated message (no code path of the repository reads it).
\<close>

datatype exn =
    ValueError pystr
  | KeyError pystr
  | RuntimeError pystr
  | OverflowError pystr
  | OSError pystr

text \<open>
  \<open>str.strip()\<close> removes leading and trailing whitespace: the code points for which
  \<open>str.isspace()\<close> holds. These are the tab, line feed, vertical tab, form feed and
  carriage return (U+0009 to U+000D), the separators U+001C to U+001F, the space, the next
  line U+0085, the no-break space U+00A0, the ogham space U+1680, the spaces U+2000 to
  U+200A, the line and paragraph separators U+2028 and U+2029, the narrow no-break space
  U+202F, the mathematical space U+205F and the ideographic space U+3000.
\<close>

definition py_space :: "nat \<Rightarrow> bool" where
  "py_space c =
     ((0x09 \<le> c \<and> c \<le> 0x0D) \<or> (0x1C \<le> c \<and> c \<le> 0x20) \<or> c = 0x85 \<or> c = 0xA0 \<or>
      c = 0x1680 \<or> (0x2000 \<le> c \<and> c \<le> 0x200A) \<or> c = 0x2028 \<or> c = 0x2029 \<or>
      c = 0x202F \<or> c = 0x205F \<or> c = 0x3000)"

definition strip :: "pystr \<Rightarrow> pystr" where
  "strip s = rev (dropWhile py_space (rev (dropWhile py_space s)))"

text \<open>
  \<open>str.lower()\<close>. The code points whose lower case contains an ASCII letter are the
  capitals A to Z, U+0130 (lower case \<open>i\<close> followed by U+0307) and the Kelvin sign U+212A
  (lower case \<open>k\<close>). The lower case of every other code point has no ASCII letter in it;
  it is left as it is here, which no search for an ASCII word can tell apart.
\<close>

definition lower_char :: "nat \<Rightarrow> pystr" where
  "lower_char c =
     (if 0x41 \<le> c \<and> c \<le> 0x5A then [c + 32]
      else if c = 0x130 then [0x69, 0x307]
      else if c = 0x212A then [0x6B]
      else [c])"

definition lower :: "pystr \<Rightarrow> pystr" where
  "lower s = concat (map lower_char s)"

text \<open>\<open>sub in s\<close> for strings: \<open>sub\<close> occurs in \<open>s\<close> as a contiguous block.\<close>

fun contains :: "pystr \<Rightarrow> pystr \<Rightarrow> bool" where
  "contains sub [] = (sub = [])"
| "contains sub (c # cs) = (prefix sub (c # cs) \<or> contains sub cs)"

section \<open>The generation client (services/gemini.py)\<close>

text \<open>
  Time is measured in seconds on the real line (the source uses Python floats; rounding
  of float arithmetic is not modelled). The world of the client is the wall clock read by
  \<open>time.time()\<close>, the module-level \<open>_last_request_time\<close>, the log of the durations
  handed to \<open>asyncio.sleep\<close> and the number of calls made to the generation service.
\<close>

record world =
  clock :: real
  last_request_time :: real
  sleeps :: "real list"
  calls :: nat

text \<open>
  The outcome of one \<open>client.models.generate_content\<close> call: it raises an exception whose
  \<open>str(e)\<close> is the given text, or it returns a response whose \<open>text\<close> may be \<open>None\<close>.
\<close>

datatype outcome = Raised pystr | Response "pystr option"

text \<open>
  The environment of the client: what the service answers to its k-th call, and by how
  much the k-th sleep overshoots the requested duration.
\<close>

record gemini_env =
  generate_content :: "nat \<Rightarrow> pystr \<Rightarrow> outcome"
  overshoot :: "nat \<Rightarrow> real"

definition min_request_interval :: real where
  "min_request_interval = 2"

definition max_retries :: nat where
  "max_retries = 3"

definition base_delay :: real where
  "base_delay = 3"

text \<open>The apostrophe is U+0027 and the line feed is U+000A.\<close>

definition SYSTEM_PROMPT :: pystr where
  "SYSTEM_PROMPT =
     str ''You are an assistant that answers questions strictly using the '' @
     str ''provided document text. If the answer cannot be found, reply with '' @
     str ''a short apology and say it'' @ [0x27] @ str ''s unavailable.''"

definition truncation_marker :: pystr where
  "truncation_marker = str ''...'' @ [0x0A] @ str ''[Truncated for length]''"

text \<open>
  \<open>_truncate\<close> of the source (the name \<open>truncate\<close> belongs to the record package).
  \<open>len(text)\<close> and \<open>text[:max_chars]\<close> count code points.
\<close>

definition truncate_text :: "pystr \<Rightarrow> nat \<Rightarrow> pystr" where
  "truncate_text text max_chars =
     (if length text \<le> max_chars then text else take max_chars text @ truncation_marker)"

definition max_chars_default :: nat where
  "max_chars_default = 12000"

definition prompt_head :: pystr where
  "prompt_head = SYSTEM_PROMPT @ [0x0A, 0x0A] @ str ''Document Text:'' @ [0x0A]"

definition prompt_tail :: "pystr \<Rightarrow> pystr" where
  "prompt_tail question =
     [0x0A, 0x0A] @ str ''Question:'' @ [0x0A] @ strip question @
     [0x0A, 0x0A] @ str ''Answer:''"

definition build_prompt :: "pystr \<Rightarrow> pystr \<Rightarrow> pystr" where
  "build_prompt document_text question =
     prompt_head @ truncate_text document_text max_chars_default @ prompt_tail question"

text \<open>\<open>await asyncio.sleep(d)\<close>: the duration is logged and the clock advances by at
  least \<open>d\<close>.\<close>

definition py_sleep :: "gemini_env \<Rightarrow> real \<Rightarrow> world \<Rightarrow> world" where
  "py_sleep env d w =
     w\<lparr>clock := clock w + d + overshoot env (length (sleeps w)), sleeps := sleeps w @ [d]\<rparr>"

definition is_quota_error :: "pystr \<Rightarrow> bool" where
  "is_quota_error error_msg =
     (contains (str ''429'') error_msg \<or> contains (str ''RESOURCE_EXHAUSTED'') error_msg \<or>
      contains (str ''quota'') (lower error_msg) \<or>
      contains (str ''Too Many Requests'') error_msg)"

text \<open>The message of the quota error starts with the stopwatch emoji, the two code points
  U+23F1 and U+FE0F.\<close>

definition quota_message :: pystr where
  "quota_message =
     [0x23F1, 0xFE0F] @
     str '' API quota limit reached. The free tier has strict rate limits. '' @
     str ''Please wait 60 seconds and try again, or upgrade your API key at https://ai.google.dev/pricing''"

definition generic_message :: "pystr \<Rightarrow> pystr" where
  "generic_message error_msg = str ''Failed to get response from AI service: '' @ error_msg"

definition invoke :: "gemini_env \<Rightarrow> pystr \<Rightarrow> world \<Rightarrow> (pystr + pystr) \<times> world" where
  "invoke env prompt w =
     (case generate_content env (calls w) prompt of
        Raised msg \<Rightarrow> (Inl msg, w\<lparr>calls := Suc (calls w)\<rparr>)
      | Response t \<Rightarrow>
          (Inr (strip (case t of None \<Rightarrow> [] | Some s \<Rightarrow> s)), w\<lparr>calls := Suc (calls w)\<rparr>))"

text \<open>The loop \<open>for attempt in range(max_retries)\<close>, as recursion over the attempts that
  remain.\<close>

fun attempts :: "gemini_env \<Rightarrow> pystr \<Rightarrow> nat list \<Rightarrow> world \<Rightarrow> (exn + pystr) \<times> world" where
  "attempts env prompt [] w =
     (Inl (RuntimeError (str ''Failed to get response from AI service after all retries'')), w)"
| "attempts env prompt (attempt # rest) w =
     (case invoke env prompt w of
        (Inr answer, w1) \<Rightarrow> (Inr answer, w1)
      | (Inl error_msg, w1) \<Rightarrow>
          if is_quota_error error_msg then
            (if attempt < max_retries - 1
             then attempts env prompt rest (py_sleep env (base_delay * 2 ^ attempt) w1)
             else (Inl (RuntimeError quota_message), w1))
          else
            (if attempt < max_retries - 1
             then attempts env prompt rest (py_sleep env (base_delay * 2 ^ attempt) w1)
             else (Inl (RuntimeError (generic_message error_msg)), w1)))"

text \<open>The rate limiter of lines 48 to 56: wait out the rest of the minimum interval, then
  record the dispatch time.\<close>

definition rate_limit :: "gemini_env \<Rightarrow> world \<Rightarrow> world" where
  "rate_limit env w =
     (let current_time = clock w;
          time_since_last_request = current_time - last_request_time w;
          w1 = (if time_since_last_request < min_request_interval
                then py_sleep env (min_request_interval - time_since_last_request) w
                else w)
      in w1\<lparr>last_request_time := clock w1\<rparr>)"

definition get_gemini_response ::
    "gemini_env \<Rightarrow> pystr \<Rightarrow> pystr \<Rightarrow> world \<Rightarrow> (exn + pystr) \<times> world" where
  "get_gemini_response env document_text question w =
     (if strip question = [] then (Inl (ValueError (str ''Question must not be empty.'')), w)
      else attempts env (build_prompt document_text question) [0..<max_retries]
             (rate_limit env w))"


text \<open>Concrete environments and a concrete world, used to run the client.\<close>

definition env0 :: gemini_env where
  "env0 = \<lparr>generate_content = (\<lambda>k p. Raised (str ''429 RESOURCE_EXHAUSTED'')), overshoot = (\<lambda>k. 0)\<rparr>"

definition w0 :: world where
  "w0 = \<lparr>clock = 10, last_request_time = 0, sleeps = [], calls = 0\<rparr>"

definition env1 :: gemini_env where
  "env1 = \<lparr>generate_content = (\<lambda>k p. Response (Some (str '' an answer ''))), overshoot = (\<lambda>k. 0)\<rparr>"

section \<open>Stored values (json)\<close>

datatype pyval = PNone | PBool bool | PInt int | PStr pystr



fun py_eq :: "pyval \<Rightarrow> pyval \<Rightarrow> bool" where
  "py_eq (PBool a) (PInt n) = ((if a then 1 else 0) = n)"
| "py_eq (PInt n) (PBool a) = (n = (if a then 1 else 0))"
| "py_eq a b = (a = b)"

type_synonym pydict = "(pystr \<times> pyval) list"

definition dget :: "pydict \<Rightarrow> pystr \<Rightarrow> pyval" where
  "dget d k = (case map_of d k of None \<Rightarrow> PNone | Some v \<Rightarrow> v)"


definition dindex :: "pydict \<Rightarrow> pystr \<Rightarrow> exn + pyval" where
  "dindex d k = (case map_of d k of None \<Rightarrow> Inl (KeyError k) | Some v \<Rightarrow> Inr v)"



section \<open>datetime\<close>

record datetime =
  year :: int
  month :: int
  day :: int
  hour :: int
  minute :: int
  second :: int
  microsecond :: int
  utcoffset :: "int option"

definition is_leap :: "int \<Rightarrow> bool" where
  "is_leap y = (y mod 4 = 0 \<and> (y mod 100 \<noteq> 0 \<or> y mod 400 = 0))"

definition days_in_month :: "int \<Rightarrow> int \<Rightarrow> int" where
  "days_in_month y m =
     (if m = 2 then (if is_leap y then 29 else 28)
      else if m = 4 \<or> m = 6 \<or> m = 9 \<or> m = 11 then 30 else 31)"

definition check_fields :: "datetime \<Rightarrow> bool" where
  "check_fields dt =
     (1 \<le> year dt \<and> year dt \<le> 9999 \<and> 1 \<le> month dt \<and> month dt \<le> 12 \<and>
      1 \<le> day dt \<and> day dt \<le> days_in_month (year dt) (month dt) \<and>
      0 \<le> hour dt \<and> hour dt < 24 \<and> 0 \<le> minute dt \<and> minute dt < 60 \<and>
      0 \<le> second dt \<and> second dt < 60 \<and> 0 \<le> microsecond dt \<and> microsecond dt < 1000000)"

definition days_from_civil :: "int \<Rightarrow> int \<Rightarrow> int \<Rightarrow> int" where
  "days_from_civil y m d =
     (let y1 = (if m \<le> 2 then y - 1 else y);
          era = y1 div 400;
          yoe = y1 - era * 400;
          mp = (m + 9) mod 12;
          doy = (153 * mp + 2) div 5 + d - 1;
          doe = yoe * 365 + yoe div 4 - yoe div 100 + doy
      in era * 146097 + doe - 719468)"

definition civil_from_days :: "int \<Rightarrow> int \<times> int \<times> int" where
  "civil_from_days z0 =
     (let z = z0 + 719468;
          era = z div 146097;
          doe = z - era * 146097;
          yoe = (doe - doe div 1460 + doe div 36524 - doe div 146096) div 365;
          doy = doe - (365 * yoe + yoe div 4 - yoe div 100);
          mp = (5 * doy + 2) div 153;
          d = doy - (153 * mp + 2) div 5 + 1;
          m = (if mp < 10 then mp + 3 else mp - 9);
          y = yoe + era * 400 + (if m \<le> 2 then 1 else 0)
      in (y, m, d))"

definition of_epoch_us :: "int \<Rightarrow> int option \<Rightarrow> datetime" where
  "of_epoch_us t off =
     (let secs = t div 1000000;
          (y, m, d) = civil_from_days (secs div 86400);
          r = secs mod 86400
      in \<lparr>year = y, month = m, day = d, hour = r div 3600, minute = r mod 3600 div 60,
          second = r mod 60, microsecond = t mod 1000000, utcoffset = off\<rparr>)"

definition to_epoch_us :: "datetime \<Rightarrow> int" where
  "to_epoch_us dt =
     ((days_from_civil (year dt) (month dt) (day dt) * 86400 + hour dt * 3600 +
       minute dt * 60 + second dt) * 1000000 + microsecond dt)"

definition fromtimestamp_utc :: "int \<Rightarrow> exn + datetime" where
  "fromtimestamp_utc n =
     (if n < - (2 ^ 63) \<or> 2 ^ 63 \<le> n
      then Inl (OverflowError (str ''timestamp out of range for platform time_t''))
      else
        let dt = of_epoch_us (n * 1000000) (Some 0) in
        if year dt - 1900 < - (2 ^ 31) \<or> 2 ^ 31 \<le> year dt - 1900
        then Inl (OSError (str ''Value too large for defined data type''))
        else if check_fields dt then Inr dt
        else Inl (ValueError (str ''year is out of range'')))"

text \<open>The decimal digits are the code points U+0030 to U+0039.\<close>

definition digit_char :: "nat \<Rightarrow> nat" where
  "digit_char n = 48 + n"

fun show_nat :: "nat \<Rightarrow> pystr" where
  "show_nat n = (if n < 10 then [digit_char n] else show_nat (n div 10) @ [digit_char (n mod 10)])"

declare show_nat.simps [simp del]

definition zpad :: "nat \<Rightarrow> int \<Rightarrow> pystr" where
  "zpad k n =
     (if n < 0
      then of_char (CHR ''-'') # replicate (k - 1 - length (show_nat (nat (- n)))) (of_char (CHR ''0'')) @ show_nat (nat (- n))
      else replicate (k - length (show_nat (nat n))) (of_char (CHR ''0'')) @ show_nat (nat n))"

definition format_offset :: "int option \<Rightarrow> pystr" where
  "format_offset off =
     (case off of
        None \<Rightarrow> []
      | Some o1 \<Rightarrow>
          let sg = (if o1 < 0 then of_char (CHR ''-'') else of_char (CHR ''+''));
              a = \<bar>o1\<bar>;
              hh = a div 3600000000;
              mm = a mod 3600000000 div 60000000;
              ss = a mod 60000000 div 1000000;
              us = a mod 1000000
          in sg # zpad 2 hh @ str '':'' @ zpad 2 mm @
             (if ss \<noteq> 0 \<or> us \<noteq> 0
              then str '':'' @ zpad 2 ss @ (if us \<noteq> 0 then str ''.'' @ zpad 6 us else [])
              else []))"

definition isoformat :: "datetime \<Rightarrow> pystr" where
  "isoformat dt =
     zpad 4 (year dt) @ str ''-'' @ zpad 2 (month dt) @ str ''-'' @ zpad 2 (day dt) @ str ''T'' @
     zpad 2 (hour dt) @ str '':'' @ zpad 2 (minute dt) @ str '':'' @ zpad 2 (second dt) @
     (if microsecond dt \<noteq> 0 then str ''.'' @ zpad 6 (microsecond dt) else []) @
     format_offset (utcoffset dt)"

function str_replace :: "pystr \<Rightarrow> pystr \<Rightarrow> pystr \<Rightarrow> pystr" where
  "str_replace old new [] = []"
| "str_replace old new (c # cs) =
     (if old \<noteq> [] \<and> prefix old (c # cs)
      then new @ str_replace old new (drop (length old) (c # cs))
      else c # str_replace old new cs)"
  by pat_completeness auto

termination
  by (relation "measure (\<lambda>(old, new, s). length s)") (auto simp: neq_Nil_conv)

definition is_digit :: "nat \<Rightarrow> bool" where
  "is_digit c = (48 \<le> c \<and> c \<le> 57)"

definition digit_value :: "nat \<Rightarrow> int" where
  "digit_value c = int c - 48"

fun parse_digits_acc :: "nat \<Rightarrow> int \<Rightarrow> pystr \<Rightarrow> (int \<times> pystr) option" where
  "parse_digits_acc 0 acc s = Some (acc, s)"
| "parse_digits_acc (Suc k) acc [] = None"
| "parse_digits_acc (Suc k) acc (c # cs) =
     (if is_digit c then parse_digits_acc k (acc * 10 + digit_value c) cs else None)"

definition parse_digits :: "nat \<Rightarrow> pystr \<Rightarrow> (int \<times> pystr) option" where
  "parse_digits k s = parse_digits_acc k 0 s"

definition parse_isoformat_date :: "pystr \<Rightarrow> ((int \<times> int \<times> int) \<times> pystr) option" where
  "parse_isoformat_date s =
     (case parse_digits 4 s of
        Some (y, c1 # r1) \<Rightarrow>
          if c1 \<noteq> of_char (CHR ''-'') then None
          else (case parse_digits 2 r1 of
                  Some (m, c2 # r2) \<Rightarrow>
                    if c2 \<noteq> of_char (CHR ''-'') then None
                    else (case parse_digits 2 r2 of
                            Some (d, r3) \<Rightarrow> Some ((y, m, d), r3)
                          | None \<Rightarrow> None)
                | _ \<Rightarrow> None)
      | _ \<Rightarrow> None)"

definition parse_fraction :: "pystr \<Rightarrow> int option" where
  "parse_fraction f =
     (if length f = 3 then (case parse_digits 3 f of Some (n, _) \<Rightarrow> Some (n * 1000) | None \<Rightarrow> None)
      else if length f = 6 then (case parse_digits 6 f of Some (n, _) \<Rightarrow> Some n | None \<Rightarrow> None)
      else None)"

definition parse_hh_mm_ss_ff :: "pystr \<Rightarrow> (int \<times> int \<times> int \<times> int) option" where
  "parse_hh_mm_ss_ff s =
     (case parse_digits 2 s of
        None \<Rightarrow> None
      | Some (h, []) \<Rightarrow> Some (h, 0, 0, 0)
      | Some (h, c1 # r1) \<Rightarrow>
          if c1 \<noteq> of_char (CHR '':'') then None
          else (case parse_digits 2 r1 of
                  None \<Rightarrow> None
                | Some (m, []) \<Rightarrow> Some (h, m, 0, 0)
                | Some (m, c2 # r2) \<Rightarrow>
                    if c2 \<noteq> of_char (CHR '':'') then None
                    else (case parse_digits 2 r2 of
                            None \<Rightarrow> None
                          | Some (sec, []) \<Rightarrow> Some (h, m, sec, 0)
                          | Some (sec, c3 # f) \<Rightarrow>
                              if c3 \<noteq> of_char (CHR ''.'') then None
                              else (case parse_fraction f of
                                      None \<Rightarrow> None
                                    | Some us \<Rightarrow> Some (h, m, sec, us)))))"

definition is_sign :: "nat \<Rightarrow> bool" where
  "is_sign c = (c = of_char (CHR ''+'') \<or> c = of_char (CHR ''-''))"

definition parse_isoformat_time ::
    "pystr \<Rightarrow> ((int \<times> int \<times> int \<times> int) \<times> int option) option" where
  "parse_isoformat_time tstr =
     (case parse_hh_mm_ss_ff (takeWhile (\<lambda>c. \<not> is_sign c) tstr) of
        None \<Rightarrow> None
      | Some t \<Rightarrow>
          (case dropWhile (\<lambda>c. \<not> is_sign c) tstr of
             [] \<Rightarrow> Some (t, None)
           | sg # tz \<Rightarrow>
               if length tz = 5 \<or> length tz = 8 \<or> length tz = 15
               then (case parse_hh_mm_ss_ff tz of
                       None \<Rightarrow> None
                     | Some (h, m, sec, us) \<Rightarrow>
                         Some (t, Some ((if sg = of_char (CHR ''-'') then - 1 else 1) *
                                        ((h * 3600 + m * 60 + sec) * 1000000 + us))))
               else None))"

definition new_datetime ::
    "int \<Rightarrow> int \<Rightarrow> int \<Rightarrow> int \<Rightarrow> int \<Rightarrow> int \<Rightarrow> int \<Rightarrow> int option \<Rightarrow> exn + datetime" where
  "new_datetime y m d h mi sec us off =
     (let dt = \<lparr>year = y, month = m, day = d, hour = h, minute = mi, second = sec,
                microsecond = us, utcoffset = off\<rparr>
      in if (case off of None \<Rightarrow> False | Some o1 \<Rightarrow> 86400000000 \<le> \<bar>o1\<bar>)
         then Inl (ValueError (str ''offset must be a timedelta strictly between -24h and 24h''))
         else if check_fields dt then Inr dt
         else Inl (ValueError (str ''field out of range'')))"

definition fromisoformat :: "pystr \<Rightarrow> exn + datetime" where
  "fromisoformat s =
     (case parse_isoformat_date s of
        None \<Rightarrow> Inl (ValueError (str ''Invalid isoformat pystr''))
      | Some ((y, m, d), []) \<Rightarrow> new_datetime y m d 0 0 0 0 None
      | Some ((y, m, d), sep # tstr) \<Rightarrow>
          (case parse_isoformat_time tstr of
             None \<Rightarrow> Inl (ValueError (str ''Invalid isoformat pystr''))
           | Some ((h, mi, sec, us), off) \<Rightarrow> new_datetime y m d h mi sec us off))"

record storage_env =
  now :: "nat \<Rightarrow> int"
  uuid4 :: "nat \<Rightarrow> pystr"
  local_offset :: "datetime \<Rightarrow> int"
  float_seconds :: "pystr \<Rightarrow> exn + int"

definition astimezone_utc :: "storage_env \<Rightarrow> datetime \<Rightarrow> exn + datetime" where
  "astimezone_utc env dt =
     (let off = (case utcoffset dt of None \<Rightarrow> local_offset env dt * 1000000 | Some o1 \<Rightarrow> o1)
      in if utcoffset dt = Some 0 then Inr dt
         else
           let r = of_epoch_us (to_epoch_us dt - off) (Some 0)
           in if check_fields r then Inr r else Inl (OverflowError (str ''date value out of range'')))"

definition to_z :: "datetime \<Rightarrow> pystr" where
  "to_z dt = str_replace (str ''+00:00'') (str ''Z'') (isoformat (dt\<lparr>microsecond := 0\<rparr>))"

definition utc_now :: "int \<Rightarrow> exn + pystr" where
  "utc_now t = (case fromtimestamp_utc t of Inl e \<Rightarrow> Inl e | Inr dt \<Rightarrow> Inr (to_z dt))"

definition from_numeric :: "int \<Rightarrow> exn + pystr" where
  "from_numeric n = (case fromtimestamp_utc n of Inl e \<Rightarrow> Inl e | Inr dt \<Rightarrow> Inr (to_z dt))"

definition is_ValueError :: "exn \<Rightarrow> bool" where
  "is_ValueError e = (case e of ValueError _ \<Rightarrow> True | _ \<Rightarrow> False)"

text \<open>The first \<open>try\<close> block: parse as ISO-8601 and convert to UTC.\<close>

definition try_isoformat :: "storage_env \<Rightarrow> pystr \<Rightarrow> exn + pystr" where
  "try_isoformat env candidate =
     (case fromisoformat (str_replace (str ''Z'') (str ''+00:00'') candidate) of
        Inl e \<Rightarrow> Inl e
      | Inr parsed \<Rightarrow>
          (case astimezone_utc env parsed of
             Inl e \<Rightarrow> Inl e
           | Inr u \<Rightarrow> Inr (to_z u)))"

text \<open>The second \<open>try\<close> block: parse as a float of epoch seconds.\<close>

definition try_epoch :: "storage_env \<Rightarrow> pystr \<Rightarrow> exn + pystr" where
  "try_epoch env candidate =
     (case float_seconds env candidate of
        Inl e \<Rightarrow> Inl e
      | Inr n \<Rightarrow> from_numeric n)"

definition normalize_timestamp :: "storage_env \<Rightarrow> int \<Rightarrow> pyval \<Rightarrow> exn + pystr" where
  "normalize_timestamp env t v =
     (case v of
        PNone \<Rightarrow> utc_now t
      | PBool b \<Rightarrow> from_numeric (if b then 1 else 0)
      | PInt n \<Rightarrow> from_numeric n
      | PStr s \<Rightarrow>
          if s = [] then utc_now t
          else
            let candidate = strip s in
            if candidate = [] then utc_now t
            else
              (case try_isoformat env candidate of
                 Inr r \<Rightarrow> Inr r
               | Inl e \<Rightarrow>
                   if is_ValueError e then
                     (case try_epoch env candidate of
                        Inr r \<Rightarrow> Inr r
                      | Inl e2 \<Rightarrow> if is_ValueError e2 then utc_now t else Inl e2)
                   else Inl e))"

definition env_s :: storage_env where
  "env_s = \<lparr>now = (\<lambda>k. 1700000000 + int k), uuid4 = (\<lambda>k. str ''uuid-'' @ show_nat k),
            local_offset = (\<lambda>dt. 0), float_seconds = (\<lambda>s. Inl (ValueError (str ''could not convert pystr to float'')))\<rparr>"

definition canon_body :: "nat \<Rightarrow> nat \<Rightarrow> nat \<Rightarrow> nat \<Rightarrow> nat \<Rightarrow> nat \<Rightarrow> pystr" where
  "canon_body y m d h mi s =
     [digit_char (y div 1000), digit_char (y div 100 mod 10), digit_char (y div 10 mod 10),
      digit_char (y mod 10), of_char (CHR ''-''), digit_char (m div 10), digit_char (m mod 10), of_char (CHR ''-''),
      digit_char (d div 10), digit_char (d mod 10), of_char (CHR ''T''),
      digit_char (h div 10), digit_char (h mod 10), of_char (CHR '':''),
      digit_char (mi div 10), digit_char (mi mod 10), of_char (CHR '':''),
      digit_char (s div 10), digit_char (s mod 10)]"

definition canonical :: "pystr \<Rightarrow> bool" where
  "canonical s = (\<exists>dt. check_fields dt \<and> utcoffset dt = Some 0 \<and> s = to_z dt)"

record db =
  documents :: "pydict list"
  messages :: "pydict list"

definition save_document ::
    "int \<Rightarrow> pystr \<Rightarrow> pystr \<Rightarrow> pystr \<Rightarrow> pystr \<Rightarrow> pystr \<Rightarrow> pystr \<Rightarrow> db \<Rightarrow> exn + db" where
  "save_document t doc_id user_id file_name blob_name blob_url document_text d =
     (case utc_now t of
        Inl e \<Rightarrow> Inl e
      | Inr created_at \<Rightarrow>
          Inr (d\<lparr>documents := documents d @
                 [[(str ''id'', PStr doc_id), (str ''user_id'', PStr user_id),
                   (str ''file_name'', PStr file_name), (str ''blob_name'', PStr blob_name),
                   (str ''blob_url'', PStr blob_url), (str ''document_text'', PStr document_text),
                   (str ''created_at'', PStr created_at), (str ''type'', PStr (str ''document''))]]\<rparr>))"

fun find_document_text :: "pystr \<Rightarrow> pystr \<Rightarrow> pydict list \<Rightarrow> exn + pyval" where
  "find_document_text user_id doc_id [] = Inl (ValueError (str ''Document not found.''))"
| "find_document_text user_id doc_id (doc # rest) =
     (case dindex doc (str ''user_id'') of
        Inl e \<Rightarrow> Inl e
      | Inr u \<Rightarrow>
          if \<not> py_eq u (PStr user_id) then find_document_text user_id doc_id rest
          else
            (case dindex doc (str ''id'') of
               Inl e \<Rightarrow> Inl e
             | Inr i \<Rightarrow>
                 if \<not> py_eq i (PStr doc_id) then find_document_text user_id doc_id rest
                 else dindex doc (str ''document_text'')))"

definition get_document_text :: "pystr \<Rightarrow> pystr \<Rightarrow> db \<Rightarrow> exn + pyval" where
  "get_document_text user_id doc_id d = find_document_text user_id doc_id (documents d)"

definition save_message ::
    "int \<Rightarrow> pystr \<Rightarrow> pystr \<Rightarrow> pystr \<Rightarrow> pystr \<Rightarrow> pystr \<Rightarrow> db \<Rightarrow> exn + db" where
  "save_message t uuid user_id doc_id role message d =
     (case utc_now t of
        Inl e \<Rightarrow> Inl e
      | Inr ts \<Rightarrow>
          Inr (d\<lparr>messages := messages d @
                 [[(str ''id'', PStr uuid), (str ''type'', PStr (str ''message'')), (str ''user_id'', PStr user_id),
                   (str ''doc_id'', PStr doc_id), (str ''role'', PStr role), (str ''content'', PStr message),
                   (str ''timestamp'', PStr ts)]]\<rparr>))"















definition db0 :: db where
  "db0 = \<lparr>documents = [], messages = []\<rparr>"

definition db_scenario :: db where
  "db_scenario =
     \<lparr>documents =
        [[(str ''id'', PStr (str ''d1'')), (str ''user_id'', PStr (str ''u1'')), (str ''file_name'', PStr (str ''a.pdf'')),
          (str ''blob_name'', PStr (str ''u1/a.pdf'')), (str ''blob_url'', PStr (str ''file:///tmp/u1/a.pdf'')),
          (str ''document_text'', PStr (str ''hello world'')),
          (str ''created_at'', PStr (str ''2024-01-01T00:00:00Z'')), (str ''type'', PStr (str ''document''))]],
      messages =
        [[(str ''id'', PStr (str ''m1'')), (str ''type'', PStr (str ''message'')), (str ''user_id'', PStr (str ''u1'')),
          (str ''doc_id'', PStr (str ''d1'')), (str ''role'', PStr (str ''user'')), (str ''content'', PStr (str ''hi'')),
          (str ''timestamp'', PStr (str ''2024-01-01T00:00:05Z''))],
         [(str ''id'', PStr (str ''m2'')), (str ''type'', PStr (str ''message'')), (str ''user_id'', PStr (str ''u1'')),
          (str ''doc_id'', PStr (str ''d1'')), (str ''role'', PStr (str ''assistant'')), (str ''content'', PStr (str ''yo'')),
          (str ''timestamp'', PStr (str ''2024-01-01T00:00:01Z''))]]\<rparr>"

definition db_legacy :: db where
  "db_legacy =
     \<lparr>documents = [],
      messages =
        [[(str ''id'', PStr (str ''m1'')), (str ''type'', PStr (str ''message'')), (str ''user_id'', PStr (str ''u1'')),
          (str ''doc_id'', PStr (str ''d1'')), (str ''role'', PStr (str ''user'')), (str ''message'', PStr (str ''hi'')),
          (str ''timestamp'', PStr (str ''2024-01-01T00:00:05Z''))]]\<rparr>"

definition db_saved :: db where
  "db_saved =
     \<lparr>documents =
        [[(str ''id'', PStr (str ''d1'')), (str ''user_id'', PStr (str ''u1'')), (str ''file_name'', PStr (str ''a.pdf'')),
          (str ''blob_name'', PStr (str ''u1/a.pdf'')), (str ''blob_url'', PStr (str ''file:///tmp/u1/a.pdf'')),
          (str ''document_text'', PStr (str ''hello world'')),
          (str ''created_at'', PStr (str ''2023-11-14T22:13:20Z'')), (str ''type'', PStr (str ''document''))]],
      messages = []\<rparr>"

definition dt_epoch :: datetime where
  "dt_epoch = \<lparr>year = 1970, month = 1, day = 1, hour = 0, minute = 0, second = 0,
               microsecond = 0, utcoffset = Some 0\<rparr>"

definition has_document_keys :: "pydict \<Rightarrow> bool" where
  "has_document_keys doc =
     (map_of doc (str ''user_id'') \<noteq> None \<and> map_of doc (str ''id'') \<noteq> None \<and>
      map_of doc (str ''document_text'') \<noteq> None)"

definition document_matches :: "pystr \<Rightarrow> pystr \<Rightarrow> pydict \<Rightarrow> bool" where
  "document_matches user_id doc_id doc =
     (dget doc (str ''user_id'') = PStr user_id \<and> dget doc (str ''id'') = PStr doc_id)"



section \<open>Properties of the generation client\<close>

lemma contains_iff: "contains sub s \<longleftrightarrow> (\<exists>a b. s = a @ sub @ b)"
proof (induction s)
  case Nil
  then show ?case by auto
next
  case (Cons c cs)
  show ?case
  proof
    assume "contains sub (c # cs)"
    then consider "prefix sub (c # cs)" | "contains sub cs" by auto
    then show "\<exists>a b. c # cs = a @ sub @ b"
    proof cases
      case 1
      then obtain b where "c # cs = sub @ b" by (auto simp: prefix_def)
      then have "c # cs = [] @ sub @ b" by simp
      then show ?thesis by blast
    next
      case 2
      then obtain a b where "cs = a @ sub @ b" using Cons.IH by blast
      then have "c # cs = (c # a) @ sub @ b" by simp
      then show ?thesis by blast
    qed
  next
    assume "\<exists>a b. c # cs = a @ sub @ b"
    then obtain a b where ab: "c # cs = a @ sub @ b" by blast
    show "contains sub (c # cs)"
    proof (cases a)
      case Nil
      then have "prefix sub (c # cs)" using ab by (simp add: prefix_def)
      then show ?thesis by simp
    next
      case (Cons x a')
      then have "cs = a' @ sub @ b" using ab by simp
      then have "contains sub cs" using Cons.IH by blast
      then show ?thesis by simp
    qed
  qed
qed

lemma truncate_long: "max_chars < length text \<Longrightarrow> truncate_text text max_chars = take max_chars text @ truncation_marker"
  by (simp add: truncate_text_def)

lemma truncate_short: "length text \<le> max_chars \<Longrightarrow> truncate_text text max_chars = text"
  by (simp add: truncate_text_def)

lemma upt3: "[0..<max_retries] = [0, 1, 2]"
  by (simp add: max_retries_def upt_rec)

lemma quota_not_generic: "quota_message \<noteq> generic_message m"
  by (simp add: quota_message_def generic_message_def str_def)

lemma rate_limit_calls: "calls (rate_limit env w) = calls w"
  by (simp add: rate_limit_def py_sleep_def Let_def)

lemma strip_why: "strip (str ''why?'') = str ''why?''"
  by (simp add: strip_def py_space_def str_def)

lemma strip_blank:
  assumes "\<forall>c \<in> set s. py_space c"
  shows "strip s = []"
proof -
  have a: "dropWhile py_space s = []" using assms by (induction s) simp_all
  show ?thesis unfolding strip_def a by simp
qed


text \<open>
  C7. A document text longer than the budget of 12000 characters (code points) is cut to
  its first 12000 characters followed by the marker \<open>...\<close>, a line feed and
  \<open>[Truncated for length]\<close>, and enters the prompt in that form between two parts that do
  not depend on the text: the prompt contains the marker and no more than the budget of
  the original text. A text within the budget enters the prompt unchanged, with nothing
  appended to it.
\<close>

theorem prompt_truncation:
  "(12000 < length text \<longrightarrow>
      truncate_text text 12000 =
        take 12000 text @ str ''...'' @ [0x0A] @ str ''[Truncated for length]'' \<and>
      build_prompt text q =
        prompt_head @ (take 12000 text @ str ''...'' @ [0x0A] @ str ''[Truncated for length]'') @
        prompt_tail q \<and>
      length (take 12000 text) = 12000 \<and> prefix (take 12000 text) text \<and>
      contains (str ''...'' @ [0x0A] @ str ''[Truncated for length]'') (build_prompt text q)) \<and>
   (length text \<le> 12000 \<longrightarrow>
      truncate_text text 12000 = text \<and>
      build_prompt text q = prompt_head @ text @ prompt_tail q)"
proof (intro conjI impI)
  let ?m = "str ''...'' @ [0x0A] @ str ''[Truncated for length]''"
  assume long: "12000 < length text"
  show tr: "truncate_text text 12000 = take 12000 text @ ?m"
    using long by (simp add: truncate_long truncation_marker_def)
  show eq: "build_prompt text q = prompt_head @ (take 12000 text @ ?m) @ prompt_tail q"
    unfolding build_prompt_def max_chars_default_def tr ..
  show "length (take 12000 text) = 12000" using long by simp
  show "prefix (take 12000 text) text" by (rule take_is_prefix)
  have "build_prompt text q = (prompt_head @ take 12000 text) @ ?m @ prompt_tail q"
    unfolding eq by simp
  then show "contains ?m (build_prompt text q)"
    unfolding contains_iff by blast
next
  assume short: "length text \<le> 12000"
  then show tr: "truncate_text text 12000 = text" by (rule truncate_short)
  show "build_prompt text q = prompt_head @ text @ prompt_tail q"
    unfolding build_prompt_def max_chars_default_def tr ..
qed

theorem prompt_truncation_witness:
  "12000 < length (replicate 12001 (0x61::nat)) \<and>
   truncate_text (replicate 12001 0x61) 12000 =
     replicate 12000 0x61 @ str ''...'' @ [0x0A] @ str ''[Truncated for length]'' \<and>
   build_prompt (replicate 12001 0x61) (str ''why?'') =
     prompt_head @ (replicate 12000 0x61 @ str ''...'' @ [0x0A] @ str ''[Truncated for length]'') @
     prompt_tail (str ''why?'') \<and>
   length (replicate 6001 (0xE9::nat)) \<le> 12000 \<and>
   build_prompt (replicate 6001 0xE9) (str ''why?'') =
     prompt_head @ replicate 6001 0xE9 @ prompt_tail (str ''why?'') \<and>
   build_prompt (str ''hello world'') (str ''why?'') =
     prompt_head @ str ''hello world'' @ prompt_tail (str ''why?'')"
proof -
  have l: "length (str ''hello world'') \<le> 12000" by (simp add: str_def)
  show ?thesis
    using prompt_truncation [of "replicate 12001 0x61" "str ''why?''"]
      prompt_truncation [of "replicate 6001 0xE9" "str ''why?''"]
      prompt_truncation [of "str ''hello world''" "str ''why?''"] l
    by simp
qed


text \<open>
  C10. A question that is empty or made of whitespace only (any of the code points that
  \<open>str.strip()\<close> removes) is rejected with the validation error before anything else
  happens: the world is returned as it was, so no sleep was made, no generation call was
  made and the shared last-request time is unchanged.
\<close>

theorem blank_question_rejected:
  assumes "set question \<subseteq>
             {0x09, 0x0A, 0x0B, 0x0C, 0x0D, 0x1C, 0x1D, 0x1E, 0x1F, 0x20, 0x85, 0xA0, 0x1680,
              0x2000, 0x2001, 0x2002, 0x2003, 0x2004, 0x2005, 0x2006, 0x2007, 0x2008, 0x2009,
              0x200A, 0x2028, 0x2029, 0x202F, 0x205F, 0x3000}"
  shows "get_gemini_response env document_text question w =
           (Inl (ValueError (str ''Question must not be empty.'')), w) \<and>
         calls (snd (get_gemini_response env document_text question w)) = calls w \<and>
         sleeps (snd (get_gemini_response env document_text question w)) = sleeps w \<and>
         last_request_time (snd (get_gemini_response env document_text question w)) =
           last_request_time w"
proof -
  have "\<forall>c \<in> set question. py_space c"
    using assms by (auto simp: py_space_def)
  then have "strip question = []" by (rule strip_blank)
  then show ?thesis by (simp add: get_gemini_response_def)
qed

theorem blank_question_rejected_witness:
  "get_gemini_response env0 (str ''hello world'') [] w0 =
     (Inl (ValueError (str ''Question must not be empty.'')), w0) \<and>
   get_gemini_response env0 (str ''hello world'') [0x20, 0x09, 0x0A, 0xA0, 0x85, 0x3000] w0 =
     (Inl (ValueError (str ''Question must not be empty.'')), w0) \<and>
   calls (snd (get_gemini_response env0 (str ''hello world'')
      [0x20, 0x09, 0x0A, 0xA0, 0x85, 0x3000] w0)) = 0"
  using blank_question_rejected [of "[]" env0 "str ''hello world''" w0]
    blank_question_rejected [of "[0x20, 0x09, 0x0A, 0xA0, 0x85, 0x3000]" env0
      "str ''hello world''" w0]
  by (simp add: w0_def)

text \<open>
  C5. When each of the three attempts fails with a quota signature, the client makes
  exactly three calls, sleeps \<open>base_delay * 2 ^ attempt\<close> after the first and the
  second (3 and 6 seconds, 9 in total), and raises the quota error: a RuntimeError whose
  message tells the user that the API quota limit is reached, to wait 60 seconds and try
  again or to upgrade the API key. It is not a message of the generic failure, which
  always starts with \<open>Failed to get response from AI service\<close>.
\<close>

theorem quota_exhausted_after_three_attempts:
  assumes q: "strip question \<noteq> []"
    and fail: "\<forall>k<3. \<exists>msg. generate_content env (calls w + k) (build_prompt document_text question) = Raised msg \<and> is_quota_error msg"
    and res: "get_gemini_response env document_text question w = (r, w')"
  shows "r = Inl (RuntimeError
               ([0x23F1, 0xFE0F] @
                str '' API quota limit reached. The free tier has strict rate limits. '' @
                str ''Please wait 60 seconds and try again, or upgrade your API key at https://ai.google.dev/pricing'')) \<and>
         r \<noteq> Inl (RuntimeError (str ''Failed to get response from AI service: '' @ m)) \<and>
         r \<noteq> Inl (RuntimeError (generic_message m)) \<and>
         calls w' = calls w + 3 \<and>
         sleeps w' = sleeps (rate_limit env w) @ [base_delay * 2 ^ 0, base_delay * 2 ^ 1] \<and>
         base_delay * 2 ^ 0 = 3 \<and> base_delay * 2 ^ 1 = 6 \<and>
         sum_list [base_delay * 2 ^ 0, base_delay * 2 ^ 1] = 3 + 6"
proof -
  let ?p = "build_prompt document_text question"
  let ?w0 = "rate_limit env w"
  have f: "\<And>k. k < 3 \<Longrightarrow> \<exists>msg. generate_content env (calls w + k) ?p = Raised msg \<and> is_quota_error msg"
    using fail by blast
  from f [of 0] obtain m0 where m0: "generate_content env (calls w) ?p = Raised m0" "is_quota_error m0"
    by auto
  from f [of 1] obtain m1 where m1: "generate_content env (Suc (calls w)) ?p = Raised m1" "is_quota_error m1"
    by auto
  from f [of 2] obtain m2 where m2: "generate_content env (Suc (Suc (calls w))) ?p = Raised m2" "is_quota_error m2"
    by auto
  have "attempts env ?p [0, 1, 2] ?w0 =
      (Inl (RuntimeError quota_message),
       (py_sleep env (base_delay * 2 ^ 1)
         (py_sleep env (base_delay * 2 ^ 0) (?w0\<lparr>calls := Suc (calls w)\<rparr>)
           \<lparr>calls := Suc (Suc (calls w))\<rparr>))\<lparr>calls := Suc (Suc (Suc (calls w)))\<rparr>)"
    using m0 m1 m2
    by (simp add: invoke_def rate_limit_calls max_retries_def py_sleep_def)
  with res q have r: "r = Inl (RuntimeError quota_message)"
    and w': "w' = (py_sleep env (base_delay * 2 ^ 1)
         (py_sleep env (base_delay * 2 ^ 0) (?w0\<lparr>calls := Suc (calls w)\<rparr>)
           \<lparr>calls := Suc (Suc (calls w))\<rparr>))\<lparr>calls := Suc (Suc (Suc (calls w)))\<rparr>"
    by (simp_all add: get_gemini_response_def upt3)
  have lit: "quota_message =
      [0x23F1, 0xFE0F] @
      str '' API quota limit reached. The free tier has strict rate limits. '' @
      str ''Please wait 60 seconds and try again, or upgrade your API key at https://ai.google.dev/pricing''"
    by (rule quota_message_def)
  have ng: "quota_message \<noteq> generic_message m" by (rule quota_not_generic)
  have c1: "r = Inl (RuntimeError
               ([0x23F1, 0xFE0F] @
                str '' API quota limit reached. The free tier has strict rate limits. '' @
                str ''Please wait 60 seconds and try again, or upgrade your API key at https://ai.google.dev/pricing''))"
    using r lit by simp
  have c2: "r \<noteq> Inl (RuntimeError (generic_message m))"
    using r ng by simp
  have c3: "r \<noteq> Inl (RuntimeError (str ''Failed to get response from AI service: '' @ m))"
    using c2 by (simp add: generic_message_def)
  have c4: "calls w' = calls w + 3"
    using w' by (simp add: py_sleep_def)
  have c5: "sleeps w' = sleeps (rate_limit env w) @ [base_delay * 2 ^ 0, base_delay * 2 ^ 1]"
    using w' by (simp add: py_sleep_def)
  have c6: "base_delay * 2 ^ 0 = 3" "base_delay * 2 ^ 1 = 6"
    "sum_list [base_delay * 2 ^ 0, base_delay * 2 ^ 1] = 3 + 6"
    by (simp_all add: base_delay_def)
  show ?thesis
    using c1 c2 c3 c4 c5 c6 by blast
qed


theorem quota_exhausted_after_three_attempts_witness:
  "fst (get_gemini_response env0 (str ''hello world'') (str ''why?'') w0) =
     Inl (RuntimeError
            ([0x23F1, 0xFE0F] @
             str '' API quota limit reached. The free tier has strict rate limits. '' @
             str ''Please wait 60 seconds and try again, or upgrade your API key at https://ai.google.dev/pricing'')) \<and>
   calls (snd (get_gemini_response env0 (str ''hello world'') (str ''why?'') w0)) = 3 \<and>
   sleeps (snd (get_gemini_response env0 (str ''hello world'') (str ''why?'') w0)) = [3, 6]"
proof -
  have q: "strip (str ''why?'') \<noteq> []" by (simp add: strip_def py_space_def str_def)
  have quota: "is_quota_error (str ''429 RESOURCE_EXHAUSTED'')"
    by (simp add: is_quota_error_def str_def)
  have fail: "\<forall>k<3. \<exists>msg. generate_content env0 (calls w0 + k) (build_prompt (str ''hello world'') (str ''why?'')) = Raised msg \<and> is_quota_error msg"
    using quota by (simp add: env0_def)
  have rl: "sleeps (rate_limit env0 w0) = []"
    by (simp add: rate_limit_def w0_def min_request_interval_def Let_def)
  have c: "calls w0 = 0" by (simp add: w0_def)
  show ?thesis
    using quota_exhausted_after_three_attempts [OF q fail surjective_pairing] rl c
    by (simp add: base_delay_def)
qed

lemma attempts_last_request_time:
  "attempts env p as w = (r, w') \<Longrightarrow> last_request_time w' = last_request_time w"
proof (induction as arbitrary: w)
  case Nil
  then show ?case by auto
next
  case (Cons a as)
  then show ?case
    by (auto simp: invoke_def py_sleep_def split: outcome.splits if_splits)
qed

lemma rate_limit_dispatch: "last_request_time (rate_limit env w) = clock (rate_limit env w)"
  by (simp add: rate_limit_def Let_def)

lemma rate_limit_interval:
  assumes "0 \<le> overshoot env (length (sleeps w))"
  shows "last_request_time w + min_request_interval \<le> last_request_time (rate_limit env w)"
  using assms by (simp add: rate_limit_def Let_def py_sleep_def)

lemma rate_limit_sleeps:
  "sleeps (rate_limit env w) =
     (if clock w - last_request_time w < min_request_interval
      then sleeps w @ [min_request_interval - (clock w - last_request_time w)] else sleeps w)"
  by (simp add: rate_limit_def Let_def py_sleep_def)


text \<open>
  C6. Two successive calls: the first leaves its dispatch time in the shared
  last-request time; the second starts at any clock reading \<open>t\<close>. If less than 2
  seconds have passed since the first dispatch the second call sleeps for the remaining
  difference, and in every case its own dispatch time is at least 2 seconds after the
  first one. A sleep lasts at least as long as requested.
\<close>

theorem minimum_interval_between_dispatches:
  assumes ov: "\<forall>k. 0 \<le> overshoot env k"
    and q1: "strip q1 \<noteq> []" and q2: "strip q2 \<noteq> []"
    and first: "get_gemini_response env d1 q1 w = (r1, w1)"
    and second: "get_gemini_response env d2 q2 (w1\<lparr>clock := t\<rparr>) = (r2, w2)"
  shows "last_request_time w1 = clock (rate_limit env w) \<and>
         last_request_time w2 = clock (rate_limit env (w1\<lparr>clock := t\<rparr>)) \<and>
         last_request_time w1 + 2 \<le> last_request_time w2 \<and>
         sleeps (rate_limit env (w1\<lparr>clock := t\<rparr>)) =
           (if t - last_request_time w1 < 2 then sleeps w1 @ [2 - (t - last_request_time w1)]
            else sleeps w1)"
proof -
  have a1: "attempts env (build_prompt d1 q1) [0..<max_retries] (rate_limit env w) = (r1, w1)"
    using first q1 by (simp add: get_gemini_response_def)
  have a2: "attempts env (build_prompt d2 q2) [0..<max_retries] (rate_limit env (w1\<lparr>clock := t\<rparr>)) = (r2, w2)"
    using second q2 by (simp add: get_gemini_response_def)
  have l1: "last_request_time w1 = clock (rate_limit env w)"
    using attempts_last_request_time [OF a1] by (simp add: rate_limit_dispatch)
  have l2: "last_request_time w2 = last_request_time (rate_limit env (w1\<lparr>clock := t\<rparr>))"
    using attempts_last_request_time [OF a2] .
  have "0 \<le> overshoot env (length (sleeps (w1\<lparr>clock := t\<rparr>)))" using ov by blast
  from rate_limit_interval [OF this]
  have ge: "last_request_time w1 + 2 \<le> last_request_time w2"
    using l2 by (simp add: min_request_interval_def)
  show ?thesis
    using l1 l2 ge by (simp add: rate_limit_dispatch rate_limit_sleeps min_request_interval_def)
qed

theorem minimum_interval_between_dispatches_witness:
  "last_request_time (snd (get_gemini_response env1 (str ''hello world'') (str ''why?'') w0)) = 10 \<and>
   last_request_time
     (snd (get_gemini_response env1 (str ''hello world'') (str ''why?'')
        ((snd (get_gemini_response env1 (str ''hello world'') (str ''why?'') w0))\<lparr>clock := 10.5\<rparr>))) = 12 \<and>
   sleeps
     (snd (get_gemini_response env1 (str ''hello world'') (str ''why?'')
        ((snd (get_gemini_response env1 (str ''hello world'') (str ''why?'') w0))\<lparr>clock := 10.5\<rparr>))) = [1.5]"
proof -
  have q: "strip (str ''why?'') \<noteq> []" by (simp add: strip_def py_space_def str_def)
  have ov: "\<forall>k. 0 \<le> overshoot env1 k" by (simp add: env1_def)
  have first: "get_gemini_response env1 (str ''hello world'') (str ''why?'') w0 =
      (Inr (str ''an answer''), \<lparr>clock = 10, last_request_time = 10, sleeps = [], calls = 1\<rparr>)"
    by (simp add: get_gemini_response_def strip_why upt3 rate_limit_def w0_def
        min_request_interval_def Let_def invoke_def env1_def strip_def py_space_def str_def)
  have second: "get_gemini_response env1 (str ''hello world'') (str ''why?'')
      \<lparr>clock = 10.5, last_request_time = 10, sleeps = [], calls = 1\<rparr> =
      (Inr (str ''an answer''), \<lparr>clock = 12, last_request_time = 12, sleeps = [1.5], calls = 2\<rparr>)"
    by (simp add: get_gemini_response_def strip_why upt3 rate_limit_def
        min_request_interval_def Let_def invoke_def env1_def strip_def py_space_def py_sleep_def str_def)
  have second': "get_gemini_response env1 (str ''hello world'') (str ''why?'')
      (\<lparr>clock = 10, last_request_time = 10, sleeps = [], calls = 1\<rparr>\<lparr>clock := 10.5\<rparr>) =
      (Inr (str ''an answer''), \<lparr>clock = 12, last_request_time = 12, sleeps = [1.5], calls = 2\<rparr>)"
    using second by simp
  have s1: "snd (get_gemini_response env1 (str ''hello world'') (str ''why?'') w0) =
      \<lparr>clock = 10, last_request_time = 10, sleeps = [], calls = 1\<rparr>"
    using first by simp
  have s2: "snd (get_gemini_response env1 (str ''hello world'') (str ''why?'')
      (\<lparr>clock = 10, last_request_time = 10, sleeps = [], calls = 1\<rparr>\<lparr>clock := 10.5\<rparr>)) =
      \<lparr>clock = 12, last_request_time = 12, sleeps = [1.5], calls = 2\<rparr>"
    using second' by simp
  show ?thesis
    using minimum_interval_between_dispatches [OF ov q q first second']
    unfolding s1 s2 by simp
qed

lemma show_nat_small: "n < 10 \<Longrightarrow> show_nat n = [digit_char n]"
  by (simp add: show_nat.simps)

lemma show_nat_big: "10 \<le> n \<Longrightarrow> show_nat n = show_nat (n div 10) @ [digit_char (n mod 10)]"
  by (subst show_nat.simps) simp

lemma digit_char_0: "digit_char 0 = of_char (CHR ''0'')"
  by (simp add: digit_char_def)

lemma rep1: "replicate (Suc 0) c = [c]" by simp

lemma rep2: "replicate 2 c = [c, c]" by (simp add: numeral_2_eq_2)

lemma rep3: "replicate 3 c = [c, c, c]" by (simp add: numeral_3_eq_3)

lemma pad2: 
  assumes "n < 100"
  shows "replicate (2 - length (show_nat n)) (of_char (CHR ''0'')) @ show_nat n =
         [digit_char (n div 10), digit_char (n mod 10)]"
proof (cases "n < 10")
  case True
  then show ?thesis by (simp add: show_nat_small digit_char_0)
next
  case False
  then have "n div 10 < 10" using assms by simp
  then show ?thesis using False by (simp add: show_nat_big show_nat_small)
qed

lemma pad4:
  assumes "n < 10000"
  shows "replicate (4 - length (show_nat n)) (of_char (CHR ''0'')) @ show_nat n =
         [digit_char (n div 1000), digit_char (n div 100 mod 10),
          digit_char (n div 10 mod 10), digit_char (n mod 10)]"
proof -
  consider "n < 10" | "10 \<le> n" "n < 100" | "100 \<le> n" "n < 1000" | "1000 \<le> n"
    by linarith
  then show ?thesis
  proof cases
    case 1
    have s: "show_nat n = [digit_char n]" using 1 by (rule show_nat_small)
    have z: "n div 1000 = 0" "n div 100 mod 10 = 0" "n div 10 mod 10 = 0" "n mod 10 = n"
      using 1 by simp_all
    show ?thesis unfolding s z by (simp add: rep3 digit_char_0)
  next
    case 2
    have d: "n div 10 < 10" using 2 by simp
    have s: "show_nat n = [digit_char (n div 10), digit_char (n mod 10)]"
      using 2 d by (simp add: show_nat_big show_nat_small)
    have z: "n div 1000 = 0" "n div 100 mod 10 = 0" "n div 10 mod 10 = n div 10"
      using 2 d by simp_all
    show ?thesis unfolding s z by (simp add: rep2 digit_char_0)
  next
    case 3
    have b: "n div 10 div 10 = n div 100" by (simp add: div_mult2_eq)
    have a: "10 \<le> n div 10" "n div 100 < 10" using 3 by simp_all
    have s1: "show_nat (n div 10) = [digit_char (n div 100), digit_char (n div 10 mod 10)]"
      using a by (simp add: show_nat_big show_nat_small b)
    have s: "show_nat n = [digit_char (n div 100), digit_char (n div 10 mod 10), digit_char (n mod 10)]"
      using 3 s1 by (simp add: show_nat_big)
    have z: "n div 1000 = 0" "n div 100 mod 10 = n div 100"
      using 3 a by simp_all
    show ?thesis unfolding s z by (simp add: digit_char_0)
  next
    case 4
    have b: "n div 10 div 10 = n div 100" "n div 100 div 10 = n div 1000"
      by (simp_all add: div_mult2_eq)
    have a: "10 \<le> n div 10" "10 \<le> n div 100" "n div 1000 < 10"
      using 4 assms by simp_all
    have s2: "show_nat (n div 100) = [digit_char (n div 1000), digit_char (n div 100 mod 10)]"
      using a by (simp add: show_nat_big show_nat_small b)
    have s1: "show_nat (n div 10) =
        [digit_char (n div 1000), digit_char (n div 100 mod 10), digit_char (n div 10 mod 10)]"
      using a s2 by (simp add: show_nat_big b)
    have s: "show_nat n =
        [digit_char (n div 1000), digit_char (n div 100 mod 10), digit_char (n div 10 mod 10),
         digit_char (n mod 10)]"
      using 4 s1 by (simp add: show_nat_big)
    show ?thesis unfolding s by simp
  qed
qed

lemma zpad2: "0 \<le> n \<Longrightarrow> n < 100 \<Longrightarrow>
   zpad 2 n = [digit_char (nat n div 10), digit_char (nat n mod 10)]"
  using pad2 [of "nat n"] by (simp add: zpad_def)

lemma zpad4: "0 \<le> n \<Longrightarrow> n < 10000 \<Longrightarrow>
   zpad 4 n = [digit_char (nat n div 1000), digit_char (nat n div 100 mod 10),
               digit_char (nat n div 10 mod 10), digit_char (nat n mod 10)]"
  using pad4 [of "nat n"] by (simp add: zpad_def)

lemma of_char_digit_char: "digit_char k = 48 + k"
  by (simp add: digit_char_def)

lemma is_digit_digit_char: "k < 10 \<Longrightarrow> is_digit (digit_char k)"
  by (simp add: is_digit_def of_char_digit_char)

lemma digit_value_digit_char: "k < 10 \<Longrightarrow> digit_value (digit_char k) = int k"
  by (simp add: digit_value_def of_char_digit_char)

lemma digit_char_neq:
  assumes "k < 10" "c < 48 \<or> 57 < c"
  shows "digit_char k \<noteq> c"
  using assms of_char_digit_char [of k] by auto

lemma not_sign_digit_char: "k < 10 \<Longrightarrow> \<not> is_sign (digit_char k)"
  unfolding is_sign_def 
  using digit_char_neq [of k "of_char (CHR ''+'')"] digit_char_neq [of k "of_char (CHR ''-'')"] by simp

lemma digit_char_not_Z: "k < 10 \<Longrightarrow> digit_char k \<noteq> of_char (CHR ''Z'')"
  using digit_char_neq [of k "of_char (CHR ''Z'')"] by simp

lemma digit_char_not_plus: "k < 10 \<Longrightarrow> digit_char k \<noteq> of_char (CHR ''+'')"
  using digit_char_neq [of k "of_char (CHR ''+'')"] by simp

lemma str_replace_skip:
  assumes "c \<notin> set xs"
  shows "str_replace (c # old) new (xs @ ys) = xs @ str_replace (c # old) new ys"
  using assms by (induction xs) auto

lemma str_replace_self: "str_replace (c # old) new (c # old) = new"
  by simp

lemma str_replace_suffix:
  assumes "c \<notin> set xs"
  shows "str_replace (c # old) new (xs @ c # old) = xs @ new"
  using str_replace_skip [OF assms, of old new "c # old"] by simp

lemma zpad2_0: "zpad 2 0 = str ''00''"
  using zpad2 [of 0] by (simp add: digit_char_0 str_def)

lemma format_offset_utc: "format_offset (Some 0) = str ''+00:00''"
  by (simp add: format_offset_def zpad2_0 str_def)

lemma isoformat_canon:
  assumes "check_fields dt" "utcoffset dt = Some 0"
  shows "isoformat (dt\<lparr>microsecond := 0\<rparr>) =
         canon_body (nat (year dt)) (nat (month dt)) (nat (day dt)) (nat (hour dt))
           (nat (minute dt)) (nat (second dt)) @ str ''+00:00''"
proof -
  have y: "0 \<le> year dt" "year dt < 10000" using assms(1) by (simp_all add: check_fields_def)
  have m: "0 \<le> month dt" "month dt < 100" using assms(1) by (simp_all add: check_fields_def)
  have "day dt \<le> 31" using assms(1) by (auto simp: check_fields_def days_in_month_def split: if_splits)
  then have d: "0 \<le> day dt" "day dt < 100" using assms(1) by (simp_all add: check_fields_def)
  have h: "0 \<le> hour dt" "hour dt < 100" using assms(1) by (simp_all add: check_fields_def)
  have mi: "0 \<le> minute dt" "minute dt < 100" using assms(1) by (simp_all add: check_fields_def)
  have s: "0 \<le> second dt" "second dt < 100" using assms(1) by (simp_all add: check_fields_def)
  show ?thesis
    by (simp add: isoformat_def assms(2) format_offset_utc canon_body_def str_def
        zpad4 [OF y] zpad2 [OF m] zpad2 [OF d] zpad2 [OF h] zpad2 [OF mi] zpad2 [OF s])
qed

lemma canon_body_no:
  assumes "y < 10000" "m < 100" "d < 100" "h < 100" "mi < 100" "s < 100"
  shows "of_char (CHR ''+'') \<notin> set (canon_body y m d h mi s)" "of_char (CHR ''Z'') \<notin> set (canon_body y m d h mi s)"
proof -
  have b: "y div 1000 < 10" "y div 100 mod 10 < 10" "y div 10 mod 10 < 10" "y mod 10 < 10"
    "m div 10 < 10" "m mod 10 < 10" "d div 10 < 10" "d mod 10 < 10" "h div 10 < 10" "h mod 10 < 10"
    "mi div 10 < 10" "mi mod 10 < 10" "s div 10 < 10" "s mod 10 < 10"
    using assms by simp_all
  show "of_char (CHR ''+'') \<notin> set (canon_body y m d h mi s)"
    by (simp add: canon_body_def b [THEN digit_char_not_plus, simplified])
  show "of_char (CHR ''Z'') \<notin> set (canon_body y m d h mi s)"
    by (simp add: canon_body_def b [THEN digit_char_not_Z, simplified])
qed

lemma parse_digits_2:
  "parse_digits 2 s = parse_digits_acc (Suc (Suc 0)) 0 s"
  by (simp add: parse_digits_def numeral_2_eq_2)

lemma parse_digits_4:
  "parse_digits 4 s = parse_digits_acc (Suc (Suc (Suc (Suc 0)))) 0 s"
  unfolding parse_digits_def by (simp add: eval_nat_numeral)

lemma pd2:
  assumes "a < 10" "b < 10"
  shows "parse_digits 2 (digit_char a # digit_char b # r) = Some (int a * 10 + int b, r)"
  using assms by (simp add: parse_digits_2 is_digit_digit_char digit_value_digit_char)

lemma pd4:
  assumes "a < 10" "b < 10" "c < 10" "d < 10"
  shows "parse_digits 4 (digit_char a # digit_char b # digit_char c # digit_char d # r) =
         Some (((int a * 10 + int b) * 10 + int c) * 10 + int d, r)"
  using assms by (simp add: parse_digits_4 is_digit_digit_char digit_value_digit_char)

lemma two_digits: "int (n div 10) * 10 + int (n mod 10) = int n"
  by (simp add: zdiv_int zmod_int)

lemma four_digits:
  "((int (n div 1000) * 10 + int (n div 100 mod 10)) * 10 + int (n div 10 mod 10)) * 10 +
     int (n mod 10) = int n"
proof -
  define q1 where "q1 = n div 10"
  define q2 where "q2 = n div 100"
  define q3 where "q3 = n div 1000"
  define r0 where "r0 = n mod 10"
  define r1 where "r1 = n div 10 mod 10"
  define r2 where "r2 = n div 100 mod 10"
  have d2: "n div 100 = n div 10 div 10" and d3: "n div 1000 = n div 100 div 10"
    by (simp_all add: div_mult2_eq)
  have a: "n = q1 * 10 + r0" by (simp add: q1_def r0_def)
  have b: "q1 = q2 * 10 + r1" unfolding q1_def q2_def r1_def d2 by simp
  have c: "q2 = q3 * 10 + r2" unfolding q2_def q3_def r2_def d3 by simp
  have "((q3 * 10 + r2) * 10 + r1) * 10 + r0 = n"
    using a b c by simp
  then have "int (((q3 * 10 + r2) * 10 + r1) * 10 + r0) = int n" by (rule arg_cong)
  then have "((int q3 * 10 + int r2) * 10 + int r1) * 10 + int r0 = int n"
    by (simp only: of_nat_add of_nat_mult of_nat_numeral)
  then show ?thesis unfolding q3_def r2_def r1_def r0_def .
qed

lemma pd2n:
  assumes "n < 100"
  shows "parse_digits 2 (digit_char (n div 10) # digit_char (n mod 10) # r) = Some (int n, r)"
proof -
  have "n div 10 < 10" "n mod 10 < 10" using assms by simp_all
  from pd2 [OF this] show ?thesis by (simp only: two_digits)
qed

lemma pd4n:
  assumes "n < 10000"
  shows "parse_digits 4 (digit_char (n div 1000) # digit_char (n div 100 mod 10) #
           digit_char (n div 10 mod 10) # digit_char (n mod 10) # r) = Some (int n, r)"
proof -
  have "n div 1000 < 10" "n div 100 mod 10 < 10" "n div 10 mod 10 < 10" "n mod 10 < 10"
    using assms by simp_all
  from pd4 [OF this] show ?thesis by (simp only: four_digits)
qed

lemma parse_time_canon:
  assumes "h < 100" "mi < 100" "s < 100"
  shows "parse_isoformat_time
           ([digit_char (h div 10), digit_char (h mod 10), of_char (CHR '':''),
             digit_char (mi div 10), digit_char (mi mod 10), of_char (CHR '':''),
             digit_char (s div 10), digit_char (s mod 10)] @ str ''+00:00'') =
         Some ((int h, int mi, int s, 0), Some 0)"
proof -
  have b: "h div 10 < 10" "h mod 10 < 10" "mi div 10 < 10" "mi mod 10 < 10"
    "s div 10 < 10" "s mod 10 < 10"
    using assms by simp_all
  note ns = b [THEN not_sign_digit_char]
  have zero: "parse_hh_mm_ss_ff (str ''00:00'') = Some (0, 0, 0, 0)"
    using pd2 [of 0 0] by (simp add: parse_hh_mm_ss_ff_def digit_char_0 str_def)
  have tw: "takeWhile (\<lambda>c. \<not> is_sign c)
              ([digit_char (h div 10), digit_char (h mod 10), of_char (CHR '':''),
                digit_char (mi div 10), digit_char (mi mod 10), of_char (CHR '':''),
                digit_char (s div 10), digit_char (s mod 10)] @ str ''+00:00'') =
            [digit_char (h div 10), digit_char (h mod 10), of_char (CHR '':''),
             digit_char (mi div 10), digit_char (mi mod 10), of_char (CHR '':''),
             digit_char (s div 10), digit_char (s mod 10)]"
    using ns by (simp add: is_sign_def str_def)
  have dw: "dropWhile (\<lambda>c. \<not> is_sign c)
              ([digit_char (h div 10), digit_char (h mod 10), of_char (CHR '':''),
                digit_char (mi div 10), digit_char (mi mod 10), of_char (CHR '':''),
                digit_char (s div 10), digit_char (s mod 10)] @ str ''+00:00'') = str ''+00:00''"
    using ns by (simp add: is_sign_def str_def)
  have hms: "parse_hh_mm_ss_ff
             [digit_char (h div 10), digit_char (h mod 10), of_char (CHR '':''),
              digit_char (mi div 10), digit_char (mi mod 10), of_char (CHR '':''),
              digit_char (s div 10), digit_char (s mod 10)] = Some (int h, int mi, int s, 0)"
    using assms by (simp add: parse_hh_mm_ss_ff_def pd2n)
  show ?thesis
    unfolding parse_isoformat_time_def tw dw hms by (simp add: zero [unfolded str_def, simplified] str_def)
qed

lemma fromisoformat_canon:
  assumes "y < 10000" "m < 100" "d < 100" "h < 100" "mi < 100" "s < 100"
  shows "fromisoformat (canon_body y m d h mi s @ str ''+00:00'') =
         new_datetime (int y) (int m) (int d) (int h) (int mi) (int s) 0 (Some 0)"
proof -
  have b: "y div 1000 < 10" "y div 100 mod 10 < 10" "y div 10 mod 10 < 10" "y mod 10 < 10"
    "m div 10 < 10" "m mod 10 < 10" "d div 10 < 10" "d mod 10 < 10"
    using assms by simp_all
  have date: "parse_isoformat_date (canon_body y m d h mi s @ str ''+00:00'') =
      Some ((int y, int m, int d),
            of_char (CHR ''T'') # [digit_char (h div 10), digit_char (h mod 10), of_char (CHR '':''),
             digit_char (mi div 10), digit_char (mi mod 10), of_char (CHR '':''),
             digit_char (s div 10), digit_char (s mod 10)] @ str ''+00:00'')"
    using assms
    by (simp add: parse_isoformat_date_def canon_body_def pd4n pd2n str_def)
  show ?thesis
    unfolding fromisoformat_def date
    using parse_time_canon [OF assms(4,5,6)] by simp
qed

lemma check_fields_bounds:
  assumes "check_fields dt"
  shows "0 \<le> year dt" "year dt < 10000" "0 \<le> month dt" "month dt < 100"
    "0 \<le> day dt" "day dt < 100" "0 \<le> hour dt" "hour dt < 100"
    "0 \<le> minute dt" "minute dt < 100" "0 \<le> second dt" "second dt < 100"
proof -
  have "day dt \<le> 31"
    using assms by (auto simp: check_fields_def days_in_month_def split: if_splits)
  then show "day dt < 100" by simp
qed (use assms in \<open>simp_all add: check_fields_def\<close>)

lemma to_z_canon:
  assumes "check_fields dt" "utcoffset dt = Some 0"
  shows "to_z dt =
         canon_body (nat (year dt)) (nat (month dt)) (nat (day dt)) (nat (hour dt))
           (nat (minute dt)) (nat (second dt)) @ str ''Z''"
proof -
  have b: "nat (year dt) < 10000" "nat (month dt) < 100" "nat (day dt) < 100"
    "nat (hour dt) < 100" "nat (minute dt) < 100" "nat (second dt) < 100"
    using check_fields_bounds [OF assms(1)] by simp_all
  have "of_char (CHR ''+'') \<notin> set (canon_body (nat (year dt)) (nat (month dt)) (nat (day dt))
      (nat (hour dt)) (nat (minute dt)) (nat (second dt)))"
    using canon_body_no(1) [OF b] .
  from str_replace_suffix [OF this, of "str ''00:00''" "str ''Z''"]
  show ?thesis
    unfolding to_z_def isoformat_canon [OF assms] by (simp add: str_def)
qed

lemma strip_id:
  assumes "s \<noteq> []" "\<not> py_space (hd s)" "\<not> py_space (last s)"
  shows "strip s = s"
proof -
  have a: "dropWhile py_space s = s" using assms(1,2) by (cases s) simp_all
  have "rev s \<noteq> []" "\<not> py_space (hd (rev s))" using assms(1,3) by (simp_all add: hd_rev)
  then have b: "dropWhile py_space (rev s) = rev s" by (cases "rev s") simp_all
  show ?thesis by (simp add: strip_def a b)
qed

lemma not_space_digit_char: "k < 10 \<Longrightarrow> \<not> py_space (digit_char k)"
  by (simp add: py_space_def of_char_digit_char)

lemma strip_canon:
  assumes "y < 10000"
  shows "strip (canon_body y m d h mi s @ str ''Z'') = canon_body y m d h mi s @ str ''Z''"
proof -
  have "y div 1000 < 10" using assms by simp
  then have a: "\<not> py_space (digit_char (y div 1000))" by (rule not_space_digit_char)
  have b: "\<not> py_space (of_char (CHR ''Z''))" by (simp add: py_space_def)
  show ?thesis
    by (rule strip_id) (use a b in \<open>simp_all add: canon_body_def str_def\<close>)
qed

lemma normalize_canon:
  assumes "check_fields dt" "utcoffset dt = Some 0"
  shows "normalize_timestamp env t (PStr (to_z dt)) = Inr (to_z dt)"
proof -
  let ?b = "canon_body (nat (year dt)) (nat (month dt)) (nat (day dt)) (nat (hour dt))
           (nat (minute dt)) (nat (second dt))"
  let ?dt = "dt\<lparr>microsecond := 0\<rparr>"
  have b: "nat (year dt) < 10000" "nat (month dt) < 100" "nat (day dt) < 100"
    "nat (hour dt) < 100" "nat (minute dt) < 100" "nat (second dt) < 100"
    using check_fields_bounds [OF assms(1)] by simp_all
  have nn: "0 \<le> year dt" "0 \<le> month dt" "0 \<le> day dt" "0 \<le> hour dt" "0 \<le> minute dt"
    "0 \<le> second dt"
    using check_fields_bounds [OF assms(1)] by simp_all
  have z: "to_z dt = ?b @ str ''Z''" using to_z_canon [OF assms] .
  have sz: "str ''Z'' \<noteq> []" by (simp add: str_def)
  have ne: "?b @ str ''Z'' \<noteq> []" using sz by simp
  have st: "strip (?b @ str ''Z'') = ?b @ str ''Z''" using strip_canon [OF b(1)] .
  have rp: "str_replace (str ''Z'') (str ''+00:00'') (?b @ str ''Z'') = ?b @ str ''+00:00''"
    using str_replace_suffix [OF canon_body_no(2) [OF b], of "[]" "str ''+00:00''"] by (simp add: str_def)
  have cf: "check_fields ?dt" using assms(1) by (simp add: check_fields_def)
  have rec: "\<lparr>year = year dt, month = month dt, day = day dt, hour = hour dt,
      minute = minute dt, second = second dt, microsecond = 0, utcoffset = Some 0\<rparr> = ?dt"
    using assms(2) by simp
  have fi: "fromisoformat (?b @ str ''+00:00'') = Inr ?dt"
    unfolding fromisoformat_canon [OF b] using nn cf rec by (simp add: new_datetime_def)
  have az: "astimezone_utc env ?dt = Inr ?dt"
    using assms(2) by (simp add: astimezone_utc_def)
  have tz: "to_z ?dt = to_z dt" by (simp add: to_z_def)
  have ti: "try_isoformat env (?b @ str ''Z'') = Inr (to_z dt)"
    by (simp add: try_isoformat_def rp fi az tz)
  show ?thesis
    unfolding z normalize_timestamp_def using ne
    by (simp add: st ti z sz Let_def)
qed

lemma utcoffset_of_epoch_us: "utcoffset (of_epoch_us t off) = off"
  by (simp add: of_epoch_us_def Let_def split: prod.splits)

lemma fromtimestamp_utc_Inr:
  assumes "fromtimestamp_utc n = Inr dt"
  shows "check_fields dt \<and> utcoffset dt = Some 0"
proof -
  have a: "dt = of_epoch_us (n * 1000000) (Some 0)" and b: "check_fields dt"
    using assms unfolding fromtimestamp_utc_def Let_def by (auto split: if_splits)
  show ?thesis using b by (simp add: a utcoffset_of_epoch_us)
qed

lemma utc_now_canonical: "utc_now t = Inr s \<Longrightarrow> canonical s"
  unfolding utc_now_def canonical_def
  by (auto split: sum.splits dest: fromtimestamp_utc_Inr)

lemma from_numeric_canonical: "from_numeric n = Inr s \<Longrightarrow> canonical s"
  unfolding from_numeric_def canonical_def
  by (auto split: sum.splits dest: fromtimestamp_utc_Inr)

lemma new_datetime_Inr: "new_datetime y m d h mi sec us off = Inr dt \<Longrightarrow> check_fields dt"
  by (auto simp: new_datetime_def Let_def split: if_splits)

lemma fromisoformat_Inr: "fromisoformat s = Inr dt \<Longrightarrow> check_fields dt"
  by (auto simp: fromisoformat_def split: option.splits prod.splits list.splits
      dest: new_datetime_Inr)

lemma astimezone_utc_Inr:
  assumes "check_fields dt" "astimezone_utc env dt = Inr u"
  shows "check_fields u \<and> utcoffset u = Some 0"
proof (cases "utcoffset dt = Some 0")
  case True
  then have "u = dt" using assms(2) by (simp add: astimezone_utc_def Let_def)
  then show ?thesis using assms(1) True by simp
next
  case False
  then obtain t where "u = of_epoch_us t (Some 0)" "check_fields u"
    using assms(2) unfolding astimezone_utc_def Let_def by (auto split: if_splits)
  then show ?thesis by (simp add: utcoffset_of_epoch_us)
qed

lemma try_isoformat_canonical:
  assumes "try_isoformat env c = Inr s"
  shows "canonical s"
proof (cases "fromisoformat (str_replace (str ''Z'') (str ''+00:00'') c)")
  case (Inl e)
  then show ?thesis using assms by (simp add: try_isoformat_def)
next
  case (Inr parsed)
  then have cp: "check_fields parsed" by (rule fromisoformat_Inr)
  show ?thesis
  proof (cases "astimezone_utc env parsed")
    case (Inl e)
    then show ?thesis using assms Inr by (simp add: try_isoformat_def)
  next
    case u: (Inr u)
    then have "s = to_z u" using assms Inr by (simp add: try_isoformat_def)
    then show ?thesis
      using astimezone_utc_Inr [OF cp u] by (auto simp: canonical_def)
  qed
qed

lemma try_epoch_canonical:
  assumes "try_epoch env c = Inr s"
  shows "canonical s"
proof (cases "float_seconds env c")
  case (Inl e)
  then show ?thesis using assms by (simp add: try_epoch_def)
next
  case (Inr n)
  then show ?thesis using assms by (simp add: try_epoch_def from_numeric_canonical)
qed

lemma normalize_str_canonical:
  assumes "normalize_timestamp env t (PStr x) = Inr s"
  shows "canonical s"
proof (cases "x = [] \<or> strip x = []")
  case True
  then have "utc_now t = Inr s"
    using assms by (auto simp: normalize_timestamp_def Let_def split: if_splits)
  then show ?thesis by (rule utc_now_canonical)
next
  case False
  then have n: "x \<noteq> []" "strip x \<noteq> []" by simp_all
  show ?thesis
  proof (cases "try_isoformat env (strip x)")
    case (Inr r)
    then have "r = s" using assms n by (simp add: normalize_timestamp_def Let_def)
    then show ?thesis using Inr try_isoformat_canonical by simp
  next
    case e: (Inl e)
    show ?thesis
    proof (cases "is_ValueError e")
      case False
      then show ?thesis using assms n e by (simp add: normalize_timestamp_def Let_def)
    next
      case True
      show ?thesis
      proof (cases "try_epoch env (strip x)")
        case (Inr r)
        then have "r = s" using assms n e True by (simp add: normalize_timestamp_def Let_def)
        then show ?thesis using Inr try_epoch_canonical by simp
      next
        case e2: (Inl e2)
        then have "utc_now t = Inr s"
          using assms n e True
          by (cases "is_ValueError e2") (simp_all add: normalize_timestamp_def Let_def)
        then show ?thesis by (rule utc_now_canonical)
      qed
    qed
  qed
qed

lemma normalize_canonical:
  assumes "normalize_timestamp env t v = Inr s"
  shows "canonical s"
proof (cases v)
  case PNone
  then show ?thesis using assms by (simp add: normalize_timestamp_def utc_now_canonical)
next
  case (PBool b)
  then have "from_numeric (if b then 1 else 0) = Inr s"
    using assms by (simp add: normalize_timestamp_def)
  then show ?thesis by (rule from_numeric_canonical)
next
  case (PInt n)
  then have "from_numeric n = Inr s"
    using assms by (simp add: normalize_timestamp_def)
  then show ?thesis by (rule from_numeric_canonical)
next
  case (PStr x)
  then show ?thesis using assms normalize_str_canonical by simp
qed

text \<open>
  C4. The normalizer is idempotent: whenever it returns a pystr \<open>s\<close> for an input,
  it returns the same \<open>s\<close> when it is applied to \<open>s\<close>, at any later clock reading
  and in any environment. A pystr already in the canonical format, the rendering
  \<open>YYYY-MM-DDTHH:MM:SSZ\<close> of a valid UTC date and time, is returned unchanged.
\<close>

theorem normalize_idempotent:
  "(normalize_timestamp env t v = Inr s \<longrightarrow> normalize_timestamp env' t' (PStr s) = Inr s) \<and>
   (check_fields dt \<and> utcoffset dt = Some 0 \<longrightarrow>
      normalize_timestamp env t (PStr (to_z dt)) = Inr (to_z dt) \<and>
      to_z dt = canon_body (nat (year dt)) (nat (month dt)) (nat (day dt)) (nat (hour dt))
           (nat (minute dt)) (nat (second dt)) @ str ''Z'')"
proof (intro conjI impI)
  assume "normalize_timestamp env t v = Inr s"
  then have "canonical s" by (rule normalize_canonical)
  then obtain d where "check_fields d" "utcoffset d = Some 0" "s = to_z d"
    by (auto simp: canonical_def)
  then show "normalize_timestamp env' t' (PStr s) = Inr s"
    using normalize_canon by simp
next
  assume a: "check_fields dt \<and> utcoffset dt = Some 0"
  then show "normalize_timestamp env t (PStr (to_z dt)) = Inr (to_z dt)"
    using normalize_canon by simp
  show "to_z dt = canon_body (nat (year dt)) (nat (month dt)) (nat (day dt)) (nat (hour dt))
           (nat (minute dt)) (nat (second dt)) @ str ''Z''"
    using a to_z_canon by simp
qed

theorem normalize_idempotent_witness:
  "normalize_timestamp env_s 1700000000 (PInt 0) = Inr (str ''1970-01-01T00:00:00Z'') \<and>
   normalize_timestamp env_s 1700000005 (PStr (str ''1970-01-01T00:00:00Z'')) =
     Inr (str ''1970-01-01T00:00:00Z'') \<and>
   check_fields dt_epoch \<and> utcoffset dt_epoch = Some 0 \<and>
   to_z dt_epoch = str ''1970-01-01T00:00:00Z'' \<and>
   normalize_timestamp env_s 1700000000 (PStr (to_z dt_epoch)) = Inr (to_z dt_epoch)"
proof -
  have a: "normalize_timestamp env_s 1700000000 (PInt 0) = Inr (str ''1970-01-01T00:00:00Z'')"
    by code_simp
  have c: "check_fields dt_epoch" by code_simp
  have o: "utcoffset dt_epoch = Some 0" by (simp add: dt_epoch_def)
  have z: "to_z dt_epoch = str ''1970-01-01T00:00:00Z''" by code_simp
  note t = normalize_idempotent [of env_s 1700000000 "PInt 0" "str ''1970-01-01T00:00:00Z''"
        env_s 1700000005 dt_epoch]
  have b: "normalize_timestamp env_s 1700000005 (PStr (str ''1970-01-01T00:00:00Z'')) =
      Inr (str ''1970-01-01T00:00:00Z'')"
    using t a by blast
  have d: "normalize_timestamp env_s 1700000000 (PStr (to_z dt_epoch)) = Inr (to_z dt_epoch)"
    using t c o by blast
  show ?thesis
    using a b c o z d by blast
qed

lemma fromtimestamp_utc_far_future:
  "fromtimestamp_utc 1000000000000 = Inl (ValueError (str ''year is out of range''))"
  by code_simp

text \<open>
  C3. The normalizer is not total on the numeric path: lines 40 to 46 call
  \<open>datetime.fromtimestamp\<close> outside every \<open>try\<close>, so an epoch value whose UTC year
  lies beyond 9999 raises ValueError instead of giving a canonical pystr. The pystr
  path catches that same exception and falls back to the current time.
\<close>

theorem normalize_numeric_out_of_range_raises:
  "normalize_timestamp env t (PInt 1000000000000) = Inl (ValueError (str ''year is out of range''))"
  by (simp add: normalize_timestamp_def from_numeric_def fromtimestamp_utc_far_future)

lemma py_eq_PStr: "py_eq v (PStr s) = (v = PStr s)"
  by (cases v) simp_all

lemma dindex_present: "map_of d k \<noteq> None \<Longrightarrow> dindex d k = Inr (dget d k)"
  by (auto simp: dindex_def dget_def)

lemma find_document_text_find:
  assumes "\<forall>doc \<in> set docs. has_document_keys doc"
  shows "find_document_text user_id doc_id docs =
         (case find (document_matches user_id doc_id) docs of
            None \<Rightarrow> Inl (ValueError (str ''Document not found.''))
          | Some doc \<Rightarrow> Inr (dget doc (str ''document_text'')))"
  using assms
proof (induction docs)
  case Nil
  then show ?case by simp
next
  case (Cons doc rest)
  then have k: "has_document_keys doc" and r: "\<forall>doc \<in> set rest. has_document_keys doc"
    by simp_all
  have u: "dindex doc (str ''user_id'') = Inr (dget doc (str ''user_id''))"
    and i: "dindex doc (str ''id'') = Inr (dget doc (str ''id''))"
    and t: "dindex doc (str ''document_text'') = Inr (dget doc (str ''document_text''))"
    using k by (simp_all add: has_document_keys_def dindex_present)
  show ?case
    using Cons.IH [OF r]
    by (simp add: u i t py_eq_PStr document_matches_def)
qed

text \<open>
  C1. When every stored document carries the three fields the lookup reads,
  \<open>get_document_text\<close> returns the text of the first document whose \<open>user_id\<close> and
  \<open>id\<close> both match, and raises \<open>ValueError("Document not found.")\<close> when no document
  matches both. A document with the requested id that belongs to another user is never
  returned: when only such documents exist the call raises the not-found error.
\<close>

theorem get_document_text_owner_isolation:
  assumes "\<forall>doc \<in> set (documents d). has_document_keys doc"
  shows "(\<forall>doc. find (document_matches user_id doc_id) (documents d) = Some doc \<longrightarrow>
            get_document_text user_id doc_id d = Inr (dget doc (str ''document_text'')) \<and>
            doc \<in> set (documents d) \<and> dget doc (str ''user_id'') = PStr user_id \<and>
            dget doc (str ''id'') = PStr doc_id) \<and>
         ((\<forall>doc \<in> set (documents d). \<not> document_matches user_id doc_id doc) \<longrightarrow>
            get_document_text user_id doc_id d = Inl (ValueError (str ''Document not found.''))) \<and>
         ((\<exists>doc \<in> set (documents d). document_matches user_id doc_id doc) \<longrightarrow>
            (\<exists>doc \<in> set (documents d). document_matches user_id doc_id doc \<and>
               get_document_text user_id doc_id d = Inr (dget doc (str ''document_text''))))"
proof (intro conjI allI impI)
  fix doc
  assume f: "find (document_matches user_id doc_id) (documents d) = Some doc"
  show "get_document_text user_id doc_id d = Inr (dget doc (str ''document_text''))"
    using find_document_text_find [OF assms, of user_id doc_id] f
    by (simp add: get_document_text_def)
  from f have m: "document_matches user_id doc_id doc" and s: "doc \<in> set (documents d)"
    by (auto simp: find_Some_iff)
  show "doc \<in> set (documents d)" by (rule s)
  show "dget doc (str ''user_id'') = PStr user_id" "dget doc (str ''id'') = PStr doc_id"
    using m by (simp_all add: document_matches_def)
next
  assume "\<forall>doc \<in> set (documents d). \<not> document_matches user_id doc_id doc"
  then have "find (document_matches user_id doc_id) (documents d) = None"
    by (simp add: find_None_iff)
  then show "get_document_text user_id doc_id d = Inl (ValueError (str ''Document not found.''))"
    using find_document_text_find [OF assms, of user_id doc_id]
    by (simp add: get_document_text_def)
next
  assume "\<exists>doc \<in> set (documents d). document_matches user_id doc_id doc"
  then obtain doc where f: "find (document_matches user_id doc_id) (documents d) = Some doc"
    by (cases "find (document_matches user_id doc_id) (documents d)")
       (auto simp: find_None_iff)
  then have "document_matches user_id doc_id doc" "doc \<in> set (documents d)"
    by (auto simp: find_Some_iff)
  moreover have "get_document_text user_id doc_id d = Inr (dget doc (str ''document_text''))"
    using find_document_text_find [OF assms, of user_id doc_id] f
    by (simp add: get_document_text_def)
  ultimately show "\<exists>doc \<in> set (documents d). document_matches user_id doc_id doc \<and>
               get_document_text user_id doc_id d = Inr (dget doc (str ''document_text''))"
    by blast
qed

theorem get_document_text_owner_isolation_witness:
  "save_document 1700000000 (str ''d1'') (str ''u1'') (str ''a.pdf'') (str ''u1/a.pdf'') (str ''file:///tmp/u1/a.pdf'')
     (str ''hello world'') db0 = Inr db_saved \<and>
   get_document_text (str ''u1'') (str ''d1'') db_saved = Inr (PStr (str ''hello world'')) \<and>
   get_document_text (str ''u2'') (str ''d1'') db_saved = Inl (ValueError (str ''Document not found.''))"
proof -
  have s: "save_document 1700000000 (str ''d1'') (str ''u1'') (str ''a.pdf'') (str ''u1/a.pdf'') (str ''file:///tmp/u1/a.pdf'')
     (str ''hello world'') db0 = Inr db_saved"
    by code_simp
  have k: "\<forall>doc \<in> set (documents db_saved). has_document_keys doc"
    by (simp add: db_saved_def has_document_keys_def str_def)
  have f1: "find (document_matches (str ''u1'') (str ''d1'')) (documents db_saved) = Some (hd (documents db_saved))"
    by (simp add: db_saved_def document_matches_def dget_def str_def)
  have t: "dget (hd (documents db_saved)) (str ''document_text'') = PStr (str ''hello world'')"
    by (simp add: db_saved_def dget_def str_def)
  have n2: "\<forall>doc \<in> set (documents db_saved). \<not> document_matches (str ''u2'') (str ''d1'') doc"
    by (simp add: db_saved_def document_matches_def dget_def str_def)
  show ?thesis
    using get_document_text_owner_isolation [OF k, of "str ''u1''" "str ''d1''"]
      get_document_text_owner_isolation [OF k, of "str ''u2''" "str ''d1''"] s f1 t n2
    by simp
qed

lemma normalize_canon_literal:
  assumes "check_fields dt" "utcoffset dt = Some 0"
    and "canon_body (nat (year dt)) (nat (month dt)) (nat (day dt)) (nat (hour dt))
           (nat (minute dt)) (nat (second dt)) @ str ''Z'' = s"
  shows "normalize_timestamp env t (PStr s) = Inr s"
  using normalize_canon [OF assms(1,2)] to_z_canon [OF assms(1,2)] assms(3) by simp


lemma normalize_scenario_1:
  "normalize_timestamp env t (PStr (str ''2024-01-01T00:00:01Z'')) =
     Inr (str ''2024-01-01T00:00:01Z'')"
  by (rule normalize_canon_literal [where dt = "\<lparr>year = 2024, month = 1, day = 1, hour = 0,
        minute = 0, second = 1, microsecond = 0, utcoffset = Some 0\<rparr>"])
     (simp_all add: check_fields_def days_in_month_def is_leap_def canon_body_def
        digit_char_def str_def)

lemma normalize_scenario_5:
  "normalize_timestamp env t (PStr (str ''2024-01-01T00:00:05Z'')) =
     Inr (str ''2024-01-01T00:00:05Z'')"
  by (rule normalize_canon_literal [where dt = "\<lparr>year = 2024, month = 1, day = 1, hour = 0,
        minute = 0, second = 5, microsecond = 0, utcoffset = Some 0\<rparr>"])
     (simp_all add: check_fields_def days_in_month_def is_leap_def canon_body_def
        digit_char_def str_def)










end
